theory Spec2Isabelle
  imports Main "HOL-Library.Word"
begin

section \<open>JavaScript values used by the credential card\<close>

text \<open>
  A JavaScript string is a sequence of UTF-16 code units; \<open>length\<close> and \<open>slice\<close>
  count code units. ASCII literals of the source are written \<open>lit ''...''\<close>, the
  Chinese captions are written as their code units.
\<close>

type_synonym jsstring = "16 word list"

definition lit :: "string \<Rightarrow> jsstring" where
  "lit s = map (\<lambda>c. of_nat (of_char c)) s"

text \<open>
  The values a property read of the two lookup tables can produce: a string, or
  \<open>undefined\<close>, or (through the prototype chain of an object literal) a built-in
  function or \<open>Object.prototype\<close> itself.
\<close>

datatype jsval = Undefined | Str jsstring | NativeFn string | ObjectPrototype

fun truthy :: "jsval \<Rightarrow> bool" where
  "truthy Undefined = False"
| "truthy (Str s) = (s \<noteq> [])"
| "truthy (NativeFn n) = True"
| "truthy ObjectPrototype = True"

text \<open>\<open>a || b\<close> on values.\<close>

definition js_or :: "jsval \<Rightarrow> jsval \<Rightarrow> jsval" where
  "js_or a b = (if truthy a then a else b)"

text \<open>\<open>x || "default"\<close> where \<open>x\<close> is an optional string field: \<open>undefined\<close> and
  the empty string are falsy.\<close>

definition or_string :: "jsstring option \<Rightarrow> jsstring \<Rightarrow> jsstring" where
  "or_string x d = (case x of None \<Rightarrow> d | Some s \<Rightarrow> if s = [] then d else s)"

text \<open>\<open>n || 0\<close> where \<open>n\<close> is an optional integer count: \<open>undefined\<close> and 0 are falsy.\<close>

definition or_number :: "int option \<Rightarrow> int \<Rightarrow> int" where
  "or_number x d = (case x of None \<Rightarrow> d | Some n \<Rightarrow> if n = 0 then d else n)"

text \<open>
  \<open>ToString\<close>, as the template literal applies it. The text of a built-in function
  is implementation-defined; the form below is the one V8 and SpiderMonkey print.
\<close>

fun ToString :: "jsval \<Rightarrow> jsstring" where
  "ToString Undefined = lit ''undefined''"
| "ToString (Str s) = s"
| "ToString (NativeFn n) = lit ''function '' @ lit n @ lit ''() { [native code] }''"
| "ToString ObjectPrototype = lit ''[object Object]''"

text \<open>\<open>String.prototype.slice(start, end)\<close>: negative positions count from the end,
  every position is clamped to the string.\<close>

definition slice :: "int \<Rightarrow> int \<Rightarrow> jsstring \<Rightarrow> jsstring" where
  "slice start end s =
     (let len = int (length s);
          from = (if start < 0 then max (len + start) 0 else min start len);
          to = (if end < 0 then max (len + end) 0 else min end len)
      in take (nat (max (to - from) 0)) (drop (nat from) s))"

text \<open>\<open>Array.prototype.includes\<close> on an array of strings.\<close>

fun array_includes :: "jsstring list \<Rightarrow> jsstring \<Rightarrow> bool" where
  "array_includes [] x = False"
| "array_includes (y # ys) x = (y = x \<or> array_includes ys x)"

section \<open>Property reads on an object literal\<close>

text \<open>
  \<open>obj[key]\<close> on an object literal returns the own property if there is one and
  otherwise what \<open>Object.prototype\<close> has under that name (ECMA-262, properties of
  the Object prototype object, with Annex B), and \<open>undefined\<close> when neither has it.
\<close>

definition Object_prototype :: "(jsstring \<times> jsval) list" where
  "Object_prototype =
     [(lit ''constructor'', NativeFn ''Object''),
      (lit ''hasOwnProperty'', NativeFn ''hasOwnProperty''),
      (lit ''isPrototypeOf'', NativeFn ''isPrototypeOf''),
      (lit ''propertyIsEnumerable'', NativeFn ''propertyIsEnumerable''),
      (lit ''toLocaleString'', NativeFn ''toLocaleString''),
      (lit ''toString'', NativeFn ''toString''),
      (lit ''valueOf'', NativeFn ''valueOf''),
      (lit ''__proto__'', ObjectPrototype),
      (lit ''__defineGetter__'', NativeFn ''__defineGetter__''),
      (lit ''__defineSetter__'', NativeFn ''__defineSetter__''),
      (lit ''__lookupGetter__'', NativeFn ''__lookupGetter__''),
      (lit ''__lookupSetter__'', NativeFn ''__lookupSetter__'')]"

definition object_get :: "(jsstring \<times> jsstring) list \<Rightarrow> jsstring \<Rightarrow> jsval" where
  "object_get own k =
     (case map_of own k of
        Some v \<Rightarrow> Str v
      | None \<Rightarrow> (case map_of Object_prototype k of Some v \<Rightarrow> v | None \<Rightarrow> Undefined))"

section \<open>types.ts: the two lookup tables\<close>

definition AUTH_TYPE_LABELS :: "(jsstring \<times> jsstring) list" where
  "AUTH_TYPE_LABELS =
     [(lit ''oauth'', lit ''OAuth''),
      (lit ''claude_code'', lit ''Claude Code''),
      (lit ''console'', lit ''Console''),
      (lit ''setup_token'', lit ''Setup Token''),
      (lit ''bedrock'', lit ''Bedrock''),
      (lit ''ccr'', lit ''CCR'')]"

definition AUTH_TYPE_COLORS :: "(jsstring \<times> jsstring) list" where
  "AUTH_TYPE_COLORS =
     [(lit ''oauth'', lit ''blue''),
      (lit ''claude_code'', lit ''purple''),
      (lit ''console'', lit ''green''),
      (lit ''setup_token'', lit ''yellow''),
      (lit ''bedrock'', lit ''orange''),
      (lit ''ccr'', lit ''gray'')]"

section \<open>The host's date library\<close>

text \<open>
  \<open>Date\<close> and \<open>Intl\<close> belong to the JavaScript host, not to this repository; they
  are a parameter of the model. \<open>Date_parse\<close> is \<open>Date.parse\<close>: the time value in
  milliseconds, or \<open>None\<close> for \<open>NaN\<close>, which is what it gives for a string it does not
  recognise. \<open>format_zh_CN\<close> is what \<open>Intl\<close> does with a finite time value for the
  locale \<open>"zh-CN"\<close> and the options \<open>month\<close>, \<open>day\<close>, \<open>hour\<close>, \<open>minute\<close>, each
  \<open>"2-digit"\<close>, in the host's time zone: the formatted text, or an exception.
\<close>

datatype js_error = RangeError | TypeError

record js_runtime =
  Date_parse :: "jsstring \<Rightarrow> int option"
  format_zh_CN :: "int \<Rightarrow> js_error + jsstring"

text \<open>A \<open>Date\<close> object holds a time value or \<open>NaN\<close>; \<open>new Date(string)\<close> never
  throws.\<close>

datatype date = Date "int option"

definition new_Date :: "js_runtime \<Rightarrow> jsstring \<Rightarrow> date" where
  "new_Date rt s = Date (Date_parse rt s)"

text \<open>
  \<open>Date.prototype.toLocaleString\<close> (ECMA-402): when the time value is \<open>NaN\<close> the
  result is the string \<open>"Invalid Date"\<close>, and nothing is thrown; otherwise the value
  is formatted.
\<close>

fun toLocaleString :: "js_runtime \<Rightarrow> date \<Rightarrow> js_error + jsstring" where
  "toLocaleString rt (Date None) = Inr (lit ''Invalid Date'')"
| "toLocaleString rt (Date (Some tv)) = format_zh_CN rt tv"

section \<open>index.tsx: helpers\<close>

text \<open>The \<open>switch\<close> of \<open>getAuthTypeIcon\<close>; the icons are components of the
  plugin library.\<close>

datatype component =
    Button | Badge | Card | CardHeader | CardContent | CardFooter | Switch
  | Loader2 | Trash2 | RefreshCw | Zap | Edit | RotateCcw
  | Key | Terminal | Building | Lock | Cloud | Server
  | CheckCircle | XCircle | Clock | Mail | Globe
  | Intrinsic string

definition getAuthTypeIcon :: "jsstring \<Rightarrow> component" where
  "getAuthTypeIcon authType =
     (if authType = lit ''oauth'' then Key
      else if authType = lit ''claude_code'' then Terminal
      else if authType = lit ''console'' then Building
      else if authType = lit ''setup_token'' then Lock
      else if authType = lit ''bedrock'' then Cloud
      else if authType = lit ''ccr'' then Server
      else Key)"

text \<open>\<open>formatDate\<close>: the \<open>try\<close> block is the call chain, the \<open>catch\<close> returns the
  argument.\<close>

definition formatDate :: "js_runtime \<Rightarrow> jsstring \<Rightarrow> jsstring" where
  "formatDate rt dateStr =
     (case toLocaleString rt (new_Date rt dateStr) of
        Inr s \<Rightarrow> s
      | Inl e \<Rightarrow> dateStr)"

definition supportsTokenRefresh :: "jsstring \<Rightarrow> bool" where
  "supportsTokenRefresh authType =
     array_includes [lit ''oauth'', lit ''claude_code'', lit ''console''] authType"

section \<open>index.tsx: the data the card reads\<close>

record CredentialData =
  auth_type :: "jsstring option"
  email :: "jsstring option"
  region :: "jsstring option"
  base_url :: "jsstring option"
  expire :: "jsstring option"
  last_refresh :: "jsstring option"

text \<open>
  Modelled from the spec: the type \<open>CredentialDisplay\<close> is declared in the plugin
  library, outside this repository. The fields are the ones the component reads,
  typed as section 3 of the specification types them: an optional field is an
  \<open>option\<close>, absent being \<open>None\<close>.
\<close>

record CredentialDisplay =
  uuid :: jsstring
  name :: "jsstring option"
  is_disabled :: bool
  health_status :: "jsstring option"
  usage_count :: "int option"
  error_count :: "int option"
  last_error :: "jsstring option"
  credential_data :: "CredentialData option"

text \<open>The six callbacks of the props are opaque to the component: it only wires
  them to controls. A wired callback is named by the prop it came from.\<close>

datatype handler = onToggle | onDelete | onReset | onCheckHealth | onRefreshToken | onEdit

record CredentialCardProps =
  credential :: CredentialDisplay
  deleting :: bool
  checkingHealth :: bool
  refreshingToken :: bool

section \<open>The element tree\<close>

datatype jsx_prop =
    className jsstring
  | variant jsstring
  | size_prop jsstring
  | onClick handler
  | disabled bool
  | checked bool
  | onCheckedChange handler

text \<open>A child of an element is an element, or a value an expression in braces
  produced, or JSX text (a string value).\<close>

datatype node =
    Element component "jsx_prop list" "node list"
  | Value jsval
  | Number int
  | Boolean bool

definition Text :: "jsstring \<Rightarrow> node" where
  "Text s = Value (Str s)"

text \<open>\<open>x && <element>\<close> where \<open>x\<close> is an optional string field: a falsy \<open>x\<close> is
  itself the result.\<close>

definition present :: "jsstring option \<Rightarrow> bool" where
  "present x = (case x of None \<Rightarrow> False | Some s \<Rightarrow> s \<noteq> [])"

definition of_optional :: "jsstring option \<Rightarrow> jsval" where
  "of_optional x = (case x of None \<Rightarrow> Undefined | Some s \<Rightarrow> Str s)"

definition and_node :: "jsstring option \<Rightarrow> node \<Rightarrow> node" where
  "and_node x n = (if present x then n else Value (of_optional x))"

text \<open>\<open>String(x)\<close> on an optional string field.\<close>

definition String_of :: "jsstring option \<Rightarrow> jsstring" where
  "String_of x = ToString (of_optional x)"

section \<open>index.tsx: CredentialCard\<close>

definition empty_data :: CredentialData where
  "empty_data = \<lparr>auth_type = None, email = None, region = None, base_url = None,
     expire = None, last_refresh = None\<rparr>"

definition data_of :: "CredentialDisplay \<Rightarrow> CredentialData" where
  "data_of c = (case credential_data c of None \<Rightarrow> empty_data | Some d \<Rightarrow> d)"

definition authType_of :: "CredentialDisplay \<Rightarrow> jsstring" where
  "authType_of c = or_string (auth_type (data_of c)) (lit ''oauth'')"

definition isHealthy :: "CredentialDisplay \<Rightarrow> bool" where
  "isHealthy c = (\<not> is_disabled c \<and> health_status c \<noteq> Some (lit ''unhealthy''))"

definition muted_icon :: "component \<Rightarrow> node" where
  "muted_icon i = Element i [className (lit ''h-4 w-4 text-muted-foreground'')] []"

definition caption :: "jsstring \<Rightarrow> node" where
  "caption s = Element (Intrinsic ''span'') [className (lit ''text-muted-foreground'')] [Text s]"

text \<open>The two table reads of the badge, each with its \<open>||\<close> fallback.\<close>

definition badge_color :: "jsstring \<Rightarrow> jsval" where
  "badge_color authType = js_or (object_get AUTH_TYPE_COLORS authType) (Str (lit ''gray''))"

definition badge_label :: "jsstring \<Rightarrow> jsval" where
  "badge_label authType = js_or (object_get AUTH_TYPE_LABELS authType) (Str authType)"

definition badge :: "jsstring \<Rightarrow> node" where
  "badge authType =
     Element Badge
       [variant (lit ''outline''),
        className (lit ''bg-'' @ ToString (badge_color authType) @ lit ''-50'')]
       [Element (getAuthTypeIcon authType) [className (lit ''h-3 w-3 mr-1'')] [],
        Value (badge_label authType)]"

definition card_header :: "CredentialDisplay \<Rightarrow> node" where
  "card_header c =
     Element CardHeader [className (lit ''flex flex-row items-center justify-between space-y-0 pb-2'')]
       [Element (Intrinsic ''div'') [className (lit ''flex items-center gap-3'')]
          [Element (Intrinsic ''div'') [className (lit ''flex items-center gap-2'')]
             [if isHealthy c
              then Element CheckCircle [className (lit ''h-5 w-5 text-green-500'')] []
              else Element XCircle [className (lit ''h-5 w-5 text-red-500'')] []],
           Element (Intrinsic ''div'') []
             [Element (Intrinsic ''h3'') [className (lit ''font-medium'')]
                [Text (or_string (name c) [0x672A, 0x547D, 0x540D, 0x51ED, 0x8BC1])],
              Element (Intrinsic ''p'') [className (lit ''text-sm text-muted-foreground'')]
                [Text (slice 0 8 (uuid c)), Text (lit ''...'')]],
           badge (authType_of c)],
        Element Switch [checked (\<not> is_disabled c), onCheckedChange onToggle] []]"

text \<open>One row of the fact grid: icon, caption, value.\<close>

definition fact_row :: "jsstring \<Rightarrow> component \<Rightarrow> jsstring \<Rightarrow> jsx_prop list \<Rightarrow> jsstring \<Rightarrow> node" where
  "fact_row cls icon cap vprops txt =
     Element (Intrinsic ''div'') [className cls]
       [muted_icon icon, caption cap, Element (Intrinsic ''span'') vprops [Text txt]]"

definition fact_grid :: "js_runtime \<Rightarrow> CredentialData \<Rightarrow> node" where
  "fact_grid rt data =
     Element (Intrinsic ''div'') [className (lit ''grid grid-cols-2 gap-4 text-sm'')]
       [and_node (email data)
          (fact_row (lit ''flex items-center gap-2'') Mail [0x90AE, 0x7BB1, 0x3A] []
             (String_of (email data))),
        and_node (region data)
          (fact_row (lit ''flex items-center gap-2'') Globe [0x533A, 0x57DF, 0x3A] []
             (String_of (region data))),
        and_node (base_url data)
          (fact_row (lit ''flex items-center gap-2 col-span-2'') Globe (lit ''Base URL:'')
             [className (lit ''truncate'')] (String_of (base_url data))),
        and_node (expire data)
          (fact_row (lit ''flex items-center gap-2'') Clock [0x8FC7, 0x671F, 0x3A] []
             (formatDate rt (String_of (expire data)))),
        and_node (last_refresh data)
          (fact_row (lit ''flex items-center gap-2'') RefreshCw [0x5237, 0x65B0, 0x3A] []
             (formatDate rt (String_of (last_refresh data))))]"

text \<open>A counter of the statistics line: caption, number, unit.\<close>

definition counter :: "jsstring \<Rightarrow> int \<Rightarrow> node" where
  "counter cap n = Element (Intrinsic ''span'') [] [Text cap, Number n, Text [0x20, 0x6B21]]"

definition stats_line :: "CredentialDisplay \<Rightarrow> node" where
  "stats_line c =
     Element (Intrinsic ''div'') [className (lit ''flex items-center gap-4 text-sm text-muted-foreground'')]
       [counter [0x4F7F, 0x7528, 0x3A, 0x20] (or_number (usage_count c) 0),
        counter [0x9519, 0x8BEF, 0x3A, 0x20] (or_number (error_count c) 0),
        and_node (last_error c)
          (Element (Intrinsic ''span'') [className (lit ''text-red-500 truncate'')]
             [Text [0x6700, 0x540E, 0x9519, 0x8BEF, 0x3A, 0x20], Value (of_optional (last_error c))])]"

definition card_content :: "js_runtime \<Rightarrow> CredentialDisplay \<Rightarrow> node" where
  "card_content rt c =
     Element CardContent [className (lit ''space-y-3'')] [fact_grid rt (data_of c), stats_line c]"

definition ghost_button :: "jsx_prop list \<Rightarrow> node list \<Rightarrow> node" where
  "ghost_button ps ns = Element Button ([variant (lit ''ghost''), size_prop (lit ''sm'')] @ ps) ns"

definition plain_icon :: "component \<Rightarrow> node" where
  "plain_icon i = Element i [className (lit ''h-4 w-4'')] []"

definition spinner :: node where
  "spinner = Element Loader2 [className (lit ''h-4 w-4 animate-spin'')] []"

definition card_footer :: "jsstring \<Rightarrow> bool \<Rightarrow> bool \<Rightarrow> bool \<Rightarrow> node" where
  "card_footer authType del chk rfr =
     Element CardFooter [className (lit ''flex justify-end gap-2'')]
       [ghost_button [onClick onEdit] [plain_icon Edit],
        ghost_button [onClick onReset] [plain_icon RotateCcw],
        ghost_button [onClick onCheckHealth, disabled chk]
          [if chk then spinner else plain_icon Zap],
        (if supportsTokenRefresh authType
         then ghost_button [onClick onRefreshToken, disabled rfr]
                [if rfr then spinner else plain_icon RefreshCw]
         else Boolean False),
        ghost_button [onClick onDelete, disabled del, className (lit ''text-red-500 hover:text-red-600'')]
          [if del then spinner else plain_icon Trash2]]"

definition CredentialCard :: "js_runtime \<Rightarrow> CredentialCardProps \<Rightarrow> node" where
  "CredentialCard rt props =
     (let c = credential props in
      Element Card [className (if is_disabled c then lit ''opacity-60'' else lit '''')]
        [card_header c,
         card_content rt c,
         card_footer (authType_of c) (deleting props) (checkingHealth props) (refreshingToken props)])"

text \<open>The badge's label, icon and color as one function of the raw \<open>auth_type\<close>
  field, defaulted the way the component defaults it.\<close>

definition classify :: "jsstring option \<Rightarrow> jsval \<times> component \<times> jsval" where
  "classify raw =
     (let authType = or_string raw (lit ''oauth'')
      in (badge_label authType, getAuthTypeIcon authType, badge_color authType))"

section \<open>Reading an element tree\<close>

text \<open>All elements of a tree, in document order.\<close>

fun elements :: "node \<Rightarrow> node list" where
  "elements (Element c ps ns) = Element c ps ns # concat (map elements ns)"
| "elements (Value v) = []"
| "elements (Number n) = []"
| "elements (Boolean b) = []"

fun component_of :: "node \<Rightarrow> component option" where
  "component_of (Element c ps ns) = Some c"
| "component_of n = None"

fun props_of :: "node \<Rightarrow> jsx_prop list" where
  "props_of (Element c ps ns) = ps"
| "props_of n = []"

fun children_of :: "node \<Rightarrow> node list" where
  "children_of (Element c ps ns) = ns"
| "children_of n = []"

text \<open>The elements built from a given component.\<close>

definition instances :: "component \<Rightarrow> node \<Rightarrow> node list" where
  "instances k t = filter (\<lambda>n. component_of n = Some k) (elements t)"

text \<open>The controls wired to a callback: the buttons whose \<open>onClick\<close> it is.\<close>

definition controls :: "handler \<Rightarrow> node \<Rightarrow> node list" where
  "controls h t = filter (\<lambda>n. onClick h \<in> set (props_of n)) (instances Button t)"

text \<open>A control is disabled when it carries \<open>disabled={true}\<close>; it shows a spinner
  when a \<open>Loader2\<close> icon is inside it.\<close>

definition is_off :: "node \<Rightarrow> bool" where
  "is_off n = (disabled True \<in> set (props_of n))"

definition spins :: "node \<Rightarrow> bool" where
  "spins n = (instances Loader2 n \<noteq> [])"

text \<open>What React puts on the screen for a child: elements, numbers and non-empty
  strings; \<open>undefined\<close>, booleans and the empty string produce nothing, and neither
  does a function or another object that is not an element.\<close>

fun renders :: "node \<Rightarrow> bool" where
  "renders (Element c ps ns) = True"
| "renders (Number n) = True"
| "renders (Boolean b) = False"
| "renders (Value (Str s)) = (s \<noteq> [])"
| "renders (Value v) = False"

text \<open>A host used in the examples: it recognises one ISO string.\<close>

definition example_runtime :: js_runtime where
  "example_runtime =
     \<lparr>Date_parse = (\<lambda>s. if s = lit ''2025-01-02T03:04:00.000Z'' then Some 1735787040000 else None),
      format_zh_CN = (\<lambda>tv. Inr (lit ''01/02 03:04''))\<rparr>"

section \<open>Example inputs\<close>

text \<open>
  A disabled Bedrock credential with one unparseable date, and a credential whose
  \<open>auth_type\<close>, \<open>email\<close> and \<open>last_error\<close> are empty strings.
\<close>

definition sample_data :: CredentialData where
  "sample_data =
     \<lparr>auth_type = Some (lit ''bedrock''), email = Some (lit ''ops@example.com''),
      region = Some (lit ''us-east-1''), base_url = None,
      expire = Some (lit ''2025-01-02T03:04:00.000Z''), last_refresh = Some (lit ''not-a-date'')\<rparr>"

definition sample_credential :: CredentialDisplay where
  "sample_credential =
     \<lparr>uuid = lit ''0123456789abcdef'', name = Some (lit ''work''), is_disabled = True,
      health_status = Some (lit ''healthy''), usage_count = Some 7, error_count = None,
      last_error = Some (lit ''timeout''), credential_data = Some sample_data\<rparr>"

definition sample_props :: CredentialCardProps where
  "sample_props =
     \<lparr>credential = sample_credential, deleting = True, checkingHealth = True,
      refreshingToken = False\<rparr>"

definition blank_credential :: CredentialDisplay where
  "blank_credential =
     \<lparr>uuid = lit ''abc'', name = None, is_disabled = False, health_status = None,
      usage_count = None, error_count = Some 0, last_error = Some [],
      credential_data = Some (empty_data\<lparr>auth_type := Some [], email := Some []\<rparr>)\<rparr>"

definition blank_props :: CredentialCardProps where
  "blank_props =
     \<lparr>credential = blank_credential, deleting = False, checkingHealth = False,
      refreshingToken = True\<rparr>"

section \<open>Properties\<close>

subsection \<open>Strings and literals\<close>

lemma lit_append: "lit a @ lit b = lit (a @ b)"
  by (simp add: lit_def)

lemma lit_eq_Nil: "(lit a = []) = (a = [])" "([] = lit a) = (a = [])"
  by (auto simp add: lit_def)

lemma code_unit_inj: "((of_nat (of_char c :: nat)) :: 16 word) = of_nat (of_char d) \<Longrightarrow> c = d"
proof -
  assume "(of_nat (of_char c :: nat) :: 16 word) = of_nat (of_char d)"
  then have "unat (of_nat (of_char c :: nat) :: 16 word) = unat (of_nat (of_char d :: nat) :: 16 word)"
    by simp
  moreover have "(of_char c :: nat) < 65536" "(of_char d :: nat) < 65536"
    using nat_of_char_less_256 [of c] nat_of_char_less_256 [of d] by linarith+
  ultimately have "(of_char c :: nat) = of_char d"
    by (simp add: unat_of_nat)
  then show "c = d"
    using inj_of_char [where ?'a = nat] by (simp add: inj_def)
qed

lemma lit_eq_iff: "lit a = lit b \<longleftrightarrow> a = b"
  unfolding lit_def by (rule inj_map_eq_map) (auto simp: inj_def dest: code_unit_inj)

lemma slice_0_8: "slice 0 8 s = take 8 s"
  by (simp add: slice_def Let_def min_def max_def)

subsection \<open>Elements of the card, region by region\<close>

lemma instances_Element:
  "instances k (Element c ps ns) =
     (if c = k then [Element c ps ns] else []) @ concat (map (instances k) ns)"
  unfolding instances_def by (simp add: filter_concat comp_def)

lemma instances_leaf:
  "instances k (Value v) = []" "instances k (Number n) = []" "instances k (Boolean b) = []"
  "instances k (Text s) = []"
  by (simp_all add: instances_def Text_def)

lemma instances_if:
  "instances k (if b then x else y) = (if b then instances k x else instances k y)"
  by simp

lemma instances_and_node:
  "instances k (and_node x n) = (if present x then instances k n else [])"
  by (simp add: and_node_def instances_leaf)

lemma getAuthTypeIcon_cases:
  "getAuthTypeIcon a \<in> {Key, Terminal, Building, Lock, Cloud, Server}"
  by (simp add: getAuthTypeIcon_def)

lemmas instances_simps = instances_Element instances_leaf instances_if instances_and_node

lemma instances_card:
  "instances k (CredentialCard rt p) =
     (if k = Card then [CredentialCard rt p] else [])
     @ instances k (card_header (credential p))
     @ instances k (card_content rt (credential p))
     @ instances k (card_footer (authType_of (credential p)) (deleting p) (checkingHealth p) (refreshingToken p))"
  by (auto simp add: CredentialCard_def Let_def instances_Element)

lemma instances_content_Button: "instances Button (card_content rt c) = []"
  by (simp add: card_content_def fact_grid_def stats_line_def fact_row_def counter_def muted_icon_def
      caption_def instances_simps)

lemma instances_header_Button: "instances Button (card_header c) = []"
  using getAuthTypeIcon_cases [of "authType_of c"]
  by (auto simp add: card_header_def badge_def instances_simps)

lemma instances_footer_Button: 
  "instances Button (card_footer a del chk rfr) =
      [ghost_button [onClick onEdit] [plain_icon Edit],
        ghost_button [onClick onReset] [plain_icon RotateCcw],
        ghost_button [onClick onCheckHealth, disabled chk]
          [if chk then spinner else plain_icon Zap]] @
        (if supportsTokenRefresh a
         then [ghost_button [onClick onRefreshToken, disabled rfr]
                [if rfr then spinner else plain_icon RefreshCw]]
         else []) @
        [ghost_button [onClick onDelete, disabled del, className (lit ''text-red-500 hover:text-red-600'')]
          [if del then spinner else plain_icon Trash2]]"
  by (simp add: card_footer_def ghost_button_def plain_icon_def spinner_def instances_simps)

lemma instances_content_none:
  "k \<notin> {CardContent, Intrinsic ''div'', Intrinsic ''span'', Mail, Globe, Clock, RefreshCw}
     \<Longrightarrow> instances k (card_content rt c) = []"
  by (auto simp add: card_content_def fact_grid_def stats_line_def fact_row_def counter_def muted_icon_def
      caption_def instances_simps)

lemma instances_footer_none:
  "k \<notin> {CardFooter, Button, Edit, RotateCcw, Loader2, Zap, RefreshCw, Trash2}
     \<Longrightarrow> instances k (card_footer a del chk rfr) = []"
  by (auto simp add: card_footer_def ghost_button_def plain_icon_def spinner_def instances_simps)

lemma instances_header_CheckCircle:
  "instances CheckCircle (card_header c) =
     (if isHealthy c then [Element CheckCircle [className (lit ''h-5 w-5 text-green-500'')] []] else [])"
  using getAuthTypeIcon_cases [of "authType_of c"]
  by (auto simp add: card_header_def badge_def instances_simps)

lemma instances_header_XCircle:
  "instances XCircle (card_header c) =
     (if isHealthy c then [] else [Element XCircle [className (lit ''h-5 w-5 text-red-500'')] []])"
  using getAuthTypeIcon_cases [of "authType_of c"]
  by (auto simp add: card_header_def badge_def instances_simps)

lemma instances_header_Switch:
  "instances Switch (card_header c) =
     [Element Switch [checked (\<not> is_disabled c), onCheckedChange onToggle] []]"
  using getAuthTypeIcon_cases [of "authType_of c"]
  by (auto simp add: card_header_def badge_def instances_simps)

lemma instances_header_Badge:
  "instances Badge (card_header c) = [badge (authType_of c)]"
  using getAuthTypeIcon_cases [of "authType_of c"]
  by (auto simp add: card_header_def badge_def instances_simps)

lemma instances_header_p:
  "instances (Intrinsic ''p'') (card_header c) =
     [Element (Intrinsic ''p'') [className (lit ''text-sm text-muted-foreground'')]
                [Text (slice 0 8 (uuid c)), Text (lit ''...'')]]"
  using getAuthTypeIcon_cases [of "authType_of c"]
  by (auto simp add: card_header_def badge_def instances_simps)

lemma instances_card_Badge:
  "instances Badge (CredentialCard rt p) = [badge (authType_of (credential p))]"
  by (simp add: instances_card instances_content_none instances_footer_none instances_header_Badge)

lemma controls_card:
  "controls h (CredentialCard rt p) =
     controls h (card_footer (authType_of (credential p)) (deleting p) (checkingHealth p) (refreshingToken p))"
  by (simp add: controls_def instances_card instances_header_Button instances_content_Button)

lemma controls_footer:
  "controls h (card_footer a del chk rfr) =
     (if h = onEdit then [ghost_button [onClick onEdit] [plain_icon Edit]] else [])
     @ (if h = onReset then [ghost_button [onClick onReset] [plain_icon RotateCcw]] else [])
     @ (if h = onCheckHealth
        then [ghost_button [onClick onCheckHealth, disabled chk] [if chk then spinner else plain_icon Zap]]
        else [])
     @ (if h = onRefreshToken \<and> supportsTokenRefresh a
        then [ghost_button [onClick onRefreshToken, disabled rfr] [if rfr then spinner else plain_icon RefreshCw]]
        else [])
     @ (if h = onDelete
        then [ghost_button [onClick onDelete, disabled del, className (lit ''text-red-500 hover:text-red-600'')]
                [if del then spinner else plain_icon Trash2]]
        else [])"
  by (auto simp add: controls_def instances_footer_Button ghost_button_def)

lemma is_off_ghost_button:
  "is_off (ghost_button ps ns) = (disabled True \<in> set ps)"
  by (simp add: is_off_def ghost_button_def)

lemma spins_ghost_button:
  "spins (ghost_button ps [if b then spinner else plain_icon i]) = (b \<or> i = Loader2)"
  by (auto simp add: spins_def ghost_button_def spinner_def plain_icon_def instances_simps)

lemma renders_and_node:
  "renders (and_node x (Element c ps ns)) = present x"
  by (simp add: and_node_def present_def of_optional_def split: option.splits)

lemma filter_renders_and_node:
  "filter renders (and_node x (Element c ps ns) # rest) =
     (if present x then [Element c ps ns] else []) @ filter renders rest"
  by (simp add: and_node_def present_def of_optional_def split: option.splits)

lemma filter_renders_Element:
  "filter renders (Element c ps ns # rest) = Element c ps ns # filter renders rest"
  by simp

lemmas filter_renders_simps = filter_renders_and_node filter_renders_Element filter.simps(1)

lemma of_optional_present: "present x \<Longrightarrow> of_optional x = Str (String_of x)"
  by (simp add: present_def String_of_def of_optional_def split: option.splits)

lemma String_of_present: "present x \<Longrightarrow> x = Some (String_of x)"
  by (simp add: present_def String_of_def of_optional_def split: option.splits)

subsection \<open>The lookup tables\<close>

lemma map_of_prototype_None:
  "s \<notin> set (map fst Object_prototype) \<Longrightarrow> map_of Object_prototype s = None"
  by (simp add: map_of_eq_None_iff)

lemma known_not_inherited:
  "lit ''oauth'' \<notin> set (map fst Object_prototype)"
  "lit ''claude_code'' \<notin> set (map fst Object_prototype)"
  "lit ''console'' \<notin> set (map fst Object_prototype)"
  "lit ''setup_token'' \<notin> set (map fst Object_prototype)"
  "lit ''bedrock'' \<notin> set (map fst Object_prototype)"
  "lit ''ccr'' \<notin> set (map fst Object_prototype)"
  by (simp_all add: Object_prototype_def lit_eq_iff)

lemma badge_label_plain:
  assumes "s \<notin> set (map fst Object_prototype)"
  shows "badge_label s =
     (if s = lit ''oauth'' then Str (lit ''OAuth'')
      else if s = lit ''claude_code'' then Str (lit ''Claude Code'')
      else if s = lit ''console'' then Str (lit ''Console'')
      else if s = lit ''setup_token'' then Str (lit ''Setup Token'')
      else if s = lit ''bedrock'' then Str (lit ''Bedrock'')
      else if s = lit ''ccr'' then Str (lit ''CCR'')
      else Str s)"
  using map_of_prototype_None [OF assms]
  by (simp add: badge_label_def object_get_def AUTH_TYPE_LABELS_def js_or_def lit_eq_Nil)

lemma badge_color_plain:
  assumes "s \<notin> set (map fst Object_prototype)"
  shows "badge_color s =
     (if s = lit ''oauth'' then Str (lit ''blue'')
      else if s = lit ''claude_code'' then Str (lit ''purple'')
      else if s = lit ''console'' then Str (lit ''green'')
      else if s = lit ''setup_token'' then Str (lit ''yellow'')
      else if s = lit ''bedrock'' then Str (lit ''orange'')
      else if s = lit ''ccr'' then Str (lit ''gray'')
      else Str (lit ''gray''))"
  using map_of_prototype_None [OF assms]
  by (simp add: badge_color_def object_get_def AUTH_TYPE_COLORS_def js_or_def lit_eq_Nil)

lemma classify_default: "classify None = (Str (lit ''OAuth''), Key, Str (lit ''blue''))"
  by (simp add: classify_def Let_def or_string_def badge_label_plain [OF known_not_inherited(1)]
      badge_color_plain [OF known_not_inherited(1)] getAuthTypeIcon_def)

lemma classify_empty: "classify (Some []) = classify None"
  by (simp add: classify_def Let_def or_string_def)

lemma classify_unknown:
  assumes "s \<noteq> []"
    and "s \<notin> {lit ''oauth'', lit ''claude_code'', lit ''console'', lit ''setup_token'', lit ''bedrock'', lit ''ccr''}"
    and "s \<notin> set (map fst Object_prototype)"
  shows "classify (Some s) = (Str s, Key, Str (lit ''gray''))"
  using assms(1,2)
  by (simp add: classify_def Let_def or_string_def badge_label_plain [OF assms(3)] badge_color_plain [OF assms(3)]
      getAuthTypeIcon_def)

lemma classify_strings:
  assumes "s \<notin> set (map fst Object_prototype)"
  shows "\<exists>l i k. classify (Some s) = (Str l, i, Str k) \<and> l \<noteq> [] \<and> k \<noteq> []"
proof (cases "s = []")
  case True
  then show ?thesis
    by (simp add: classify_empty classify_default lit_eq_Nil)
next
  case False
  then show ?thesis
    by (simp add: classify_def Let_def or_string_def badge_label_plain [OF assms] badge_color_plain [OF assms]
      lit_eq_Nil)
qed

lemma classify_icon:
  assumes "s \<notin> {lit ''oauth'', lit ''claude_code'', lit ''console'', lit ''setup_token'', lit ''bedrock'', lit ''ccr''}"
  shows "fst (snd (classify (Some s))) = Key"
  using assms by (simp add: classify_def Let_def or_string_def getAuthTypeIcon_def)

lemma badge_oauth:
  "badge (lit ''oauth'') =
     Element Badge [variant (lit ''outline''), className (lit ''bg-blue-50'')]
       [Element Key [className (lit ''h-3 w-3 mr-1'')] [], Value (Str (lit ''OAuth''))]"
  by (simp add: badge_def badge_label_plain [OF known_not_inherited(1)]
      badge_color_plain [OF known_not_inherited(1)] getAuthTypeIcon_def lit_append)

text \<open>
  A name that an object literal inherits is found by the table read: for
  \<open>"constructor"\<close> label and color are the built-in function \<open>Object\<close>, not
  strings.
\<close>

lemma inherited_name_example:
  "badge_label (lit ''constructor'') = NativeFn ''Object''
   \<and> badge_color (lit ''constructor'') = NativeFn ''Object''"
  by (simp add: badge_label_def badge_color_def object_get_def AUTH_TYPE_LABELS_def
      AUTH_TYPE_COLORS_def Object_prototype_def js_or_def lit_eq_iff)

subsection \<open>Health signal\<close>

text \<open>
  C1. The health signal of a credential is \<open>\<not> is_disabled \<and> health_status \<noteq> "unhealthy"\<close>:
  a disabled credential is never healthy, whatever its health status; an enabled one
  whose health status is absent or different from "unhealthy" is healthy. The card
  shows the green check icon exactly when the signal is true and the red cross icon
  exactly when it is false.
\<close>

theorem isHealthy_signal:
  "isHealthy c = (\<not> is_disabled c \<and> health_status c \<noteq> Some (lit ''unhealthy''))
   \<and> (is_disabled c \<longrightarrow> \<not> isHealthy c)
   \<and> (\<not> is_disabled c \<and> health_status c \<noteq> Some (lit ''unhealthy'') \<longrightarrow> isHealthy c)
   \<and> (instances CheckCircle (CredentialCard rt p) \<noteq> []) = isHealthy (credential p)
   \<and> (instances XCircle (CredentialCard rt p) \<noteq> []) = (\<not> isHealthy (credential p))"
proof -
  have "instances CheckCircle (CredentialCard rt p) = instances CheckCircle (card_header (credential p))"
    by (simp add: instances_card instances_content_none instances_footer_none)
  moreover have "instances XCircle (CredentialCard rt p) = instances XCircle (card_header (credential p))"
    by (simp add: instances_card instances_content_none instances_footer_none)
  ultimately show ?thesis
    by (simp add: instances_header_CheckCircle instances_header_XCircle) (simp add: isHealthy_def)
qed

theorem isHealthy_signal_witness:
  "is_disabled sample_credential \<and> health_status sample_credential = Some (lit ''healthy'')
   \<and> \<not> isHealthy sample_credential
   \<and> instances CheckCircle (CredentialCard example_runtime sample_props) = []
   \<and> isHealthy blank_credential"
proof -
  have "is_disabled sample_credential" "health_status sample_credential = Some (lit ''healthy'')"
    "credential sample_props = sample_credential"
    by (simp_all add: sample_credential_def sample_props_def)
  moreover have "\<not> is_disabled blank_credential" "health_status blank_credential = None"
    by (simp_all add: blank_credential_def)
  ultimately show ?thesis
    using isHealthy_signal [of sample_credential example_runtime sample_props]
      isHealthy_signal [of blank_credential example_runtime sample_props]
    by simp
qed

subsection \<open>Auth-type classification\<close>

text \<open>
  C2, as amended. An absent auth type and the empty string are both classified as
  oauth: label "OAuth", key icon, blue. Every input that is not a name inherited from
  \<open>Object.prototype\<close> yields a non-empty string label, an icon and a non-empty string
  color. Every non-empty input outside the six known keys that is not such an
  inherited name yields the raw input as label, the key icon and gray. Every input
  outside the six known keys yields the key icon.
\<close>

theorem classify_amended:
  "classify None = (Str (lit ''OAuth''), Key, Str (lit ''blue''))
   \<and> classify (Some []) = classify None
   \<and> (s \<notin> set (map fst Object_prototype) \<longrightarrow>
        (\<exists>l i k. classify (Some s) = (Str l, i, Str k) \<and> l \<noteq> [] \<and> k \<noteq> []))
   \<and> (s \<noteq> []
        \<and> s \<notin> {lit ''oauth'', lit ''claude_code'', lit ''console'', lit ''setup_token'',
                 lit ''bedrock'', lit ''ccr''}
        \<and> s \<notin> set (map fst Object_prototype) \<longrightarrow>
        classify (Some s) = (Str s, Key, Str (lit ''gray'')))
   \<and> (s \<notin> {lit ''oauth'', lit ''claude_code'', lit ''console'', lit ''setup_token'',
              lit ''bedrock'', lit ''ccr''} \<longrightarrow>
        fst (snd (classify (Some s))) = Key)"
  using classify_default classify_empty classify_strings [of s] classify_unknown [of s]
    classify_icon [of s]
  by blast

theorem classify_amended_witness:
  "classify (Some (lit ''unknown_type'')) = (Str (lit ''unknown_type''), Key, Str (lit ''gray''))
   \<and> classify (Some (lit ''bedrock'')) = (Str (lit ''Bedrock''), Cloud, Str (lit ''orange''))"
proof -
  have "classify (Some (lit ''unknown_type'')) = (Str (lit ''unknown_type''), Key, Str (lit ''gray''))"
    using classify_amended [of "lit ''unknown_type''"]
    by (simp add: lit_eq_iff lit_eq_Nil Object_prototype_def)
  moreover have "classify (Some (lit ''bedrock'')) = (Str (lit ''Bedrock''), Cloud, Str (lit ''orange''))"
    by (simp add: classify_def Let_def or_string_def badge_label_plain [OF known_not_inherited(5)]
        badge_color_plain [OF known_not_inherited(5)] getAuthTypeIcon_def lit_eq_iff lit_eq_Nil)
  ultimately show ?thesis by simp
qed

text \<open>
  C2 as stated fails at the empty string, which is outside the six known keys: the
  card classifies it as oauth, so the label is "OAuth" and not the raw input, and the
  color is blue and not gray; the table read alone would give the empty label.
\<close>

theorem classify_counterexample:
  "[] \<notin> {lit ''oauth'', lit ''claude_code'', lit ''console'', lit ''setup_token'',
            lit ''bedrock'', lit ''ccr''}
   \<and> classify (Some []) = (Str (lit ''OAuth''), Key, Str (lit ''blue''))
   \<and> Str (lit ''OAuth'') \<noteq> Str []
   \<and> Str (lit ''blue'') \<noteq> Str (lit ''gray'')
   \<and> badge_label [] = Str []"
  by (simp add: classify_empty classify_default lit_eq_iff lit_eq_Nil badge_label_def object_get_def
      AUTH_TYPE_LABELS_def Object_prototype_def js_or_def)

subsection \<open>Date formatting\<close>

text \<open>
  C3. For a string the host does not recognise as a date, \<open>formatDate\<close> returns
  the text "Invalid Date": nothing is thrown, so the \<open>catch\<close> that would return the
  argument unchanged is never entered.
\<close>

theorem formatDate_unrecognised:
  "Date_parse rt s = None \<Longrightarrow> formatDate rt s = lit ''Invalid Date''"
  by (simp add: formatDate_def new_Date_def)

theorem formatDate_unrecognised_witness:
  "Date_parse example_runtime (lit ''not-a-date'') = None
   \<and> formatDate example_runtime (lit ''not-a-date'') = lit ''Invalid Date''
   \<and> lit ''Invalid Date'' \<noteq> lit ''not-a-date''"
proof -
  have h: "Date_parse example_runtime (lit ''not-a-date'') = None"
    by (simp add: example_runtime_def lit_eq_iff)
  show ?thesis
    using h formatDate_unrecognised [OF h] by (simp add: lit_eq_iff)
qed

subsection \<open>Refresh eligibility\<close>

text \<open>
  C4. The refresh-eligibility test is true for exactly the three strings
  "oauth", "claude_code" and "console"; it is false for every other string, the
  empty string included.
\<close>

theorem supportsTokenRefresh_exactly:
  "supportsTokenRefresh s =
     (s = lit ''oauth'' \<or> s = lit ''claude_code'' \<or> s = lit ''console'')
   \<and> \<not> supportsTokenRefresh []
   \<and> \<not> supportsTokenRefresh (lit ''bedrock'')
   \<and> \<not> supportsTokenRefresh (lit ''unknown_type'')"
  by (auto simp: supportsTokenRefresh_def lit_def)

theorem supportsTokenRefresh_exactly_witness:
  "supportsTokenRefresh (lit ''console'') \<and> \<not> supportsTokenRefresh (lit ''setup_token'')"
  using supportsTokenRefresh_exactly [of "lit ''console''"]
    supportsTokenRefresh_exactly [of "lit ''setup_token''"]
  by (simp add: lit_eq_iff)

subsection \<open>Refresh-token control\<close>

text \<open>
  C5. The card has a control wired to \<open>onRefreshToken\<close> exactly when the defaulted
  auth type is refresh-eligible, and that control is a child of the footer. What the
  footer puts on the screen is exactly the buttons of the card: five when the auth
  type is eligible, four otherwise, so an ineligible auth type has no refresh control
  at all, disabled or not.
\<close>

theorem refresh_control_visibility:
  "controls onRefreshToken (CredentialCard rt p) =
     controls onRefreshToken
       (card_footer (authType_of (credential p)) (deleting p) (checkingHealth p) (refreshingToken p))
   \<and> (controls onRefreshToken (CredentialCard rt p) \<noteq> [])
       = supportsTokenRefresh (authType_of (credential p))
   \<and> filter renders
        (children_of (card_footer (authType_of (credential p)) (deleting p) (checkingHealth p)
           (refreshingToken p)))
       = instances Button (CredentialCard rt p)
   \<and> length (instances Button (CredentialCard rt p))
       = (if supportsTokenRefresh (authType_of (credential p)) then 5 else 4)"
proof -
  have "filter renders (children_of (card_footer a del chk rfr)) = instances Button (card_footer a del chk rfr)"
    for a del chk rfr
    unfolding instances_footer_Button by (simp add: card_footer_def ghost_button_def)
  moreover have "instances Button (CredentialCard rt p) =
    instances Button (card_footer (authType_of (credential p)) (deleting p) (checkingHealth p) (refreshingToken p))"
    by (simp add: instances_card instances_header_Button instances_content_Button)
  ultimately show ?thesis
    by (simp add: controls_card controls_footer instances_footer_Button)
qed

theorem refresh_control_visibility_witness:
  "controls onRefreshToken (CredentialCard example_runtime sample_props) = []
   \<and> length (instances Button (CredentialCard example_runtime sample_props)) = 4"
proof -
  have "\<not> supportsTokenRefresh (authType_of (credential sample_props))"
    by (simp add: sample_props_def sample_credential_def sample_data_def authType_of_def data_of_def
      or_string_def supportsTokenRefresh_def lit_eq_iff lit_eq_Nil)
  then show ?thesis
    using refresh_control_visibility [of example_runtime sample_props] by auto
qed

subsection \<open>Identifier truncation\<close>

text \<open>
  C6. The identifier line of the card holds \<open>uuid.slice(0, 8)\<close> followed by the
  text "...". For an id of at least 8 code units the slice is its first 8 code units;
  for a shorter id it is the whole id.
\<close>

theorem truncated_id:
  "map children_of (instances (Intrinsic ''p'') (CredentialCard rt p)) =
     [[Text (slice 0 8 (uuid (credential p))), Text (lit ''...'')]]
   \<and> slice 0 8 u = take 8 u
   \<and> (8 \<le> length u \<longrightarrow> length (slice 0 8 u) = 8 \<and> (\<exists>rest. u = slice 0 8 u @ rest))
   \<and> (length u < 8 \<longrightarrow> slice 0 8 u = u)"
proof -
  have "instances (Intrinsic ''p'') (CredentialCard rt p) = instances (Intrinsic ''p'') (card_header (credential p))"
    by (simp add: instances_card instances_content_none instances_footer_none)
  moreover have "\<exists>rest. u = take 8 u @ rest"
    by (metis append_take_drop_id)
  ultimately show ?thesis
    by (simp add: instances_header_p slice_0_8)
qed

theorem truncated_id_witness:
  "map children_of (instances (Intrinsic ''p'') (CredentialCard example_runtime sample_props)) =
     [[Text (lit ''01234567''), Text (lit ''...'')]]
   \<and> slice 0 8 (lit ''abc'') = lit ''abc''"
  using truncated_id [of example_runtime sample_props "uuid (credential sample_props)"]
    truncated_id [of example_runtime sample_props "lit ''abc''"]
  by (simp add: sample_props_def sample_credential_def lit_def)

subsection \<open>Busy flags\<close>

text \<open>
  C7. The health-check control is disabled and shows the spinner exactly when
  \<open>checkingHealth\<close> is true; the refresh-token control, when present, is disabled
  and shows the spinner exactly when \<open>refreshingToken\<close> is true; the delete control
  is disabled exactly when \<open>deleting\<close> is true. The edit and reset controls are the
  same elements for every combination of the flags, and are not disabled.
\<close>

theorem busy_flags:
  "map (\<lambda>b. (is_off b, spins b)) (controls onCheckHealth (CredentialCard rt p))
     = [(checkingHealth p, checkingHealth p)]
   \<and> map (\<lambda>b. (is_off b, spins b)) (controls onRefreshToken (CredentialCard rt p))
     = (if supportsTokenRefresh (authType_of (credential p))
        then [(refreshingToken p, refreshingToken p)] else [])
   \<and> map is_off (controls onDelete (CredentialCard rt p)) = [deleting p]
   \<and> controls onEdit (CredentialCard rt p) = [ghost_button [onClick onEdit] [plain_icon Edit]]
   \<and> controls onReset (CredentialCard rt p) = [ghost_button [onClick onReset] [plain_icon RotateCcw]]
   \<and> \<not> is_off (ghost_button [onClick onEdit] [plain_icon Edit])
   \<and> \<not> is_off (ghost_button [onClick onReset] [plain_icon RotateCcw])"
  by (simp add: controls_card controls_footer is_off_ghost_button spins_ghost_button)

theorem busy_flags_witness:
  "map (\<lambda>b. (is_off b, spins b)) (controls onCheckHealth (CredentialCard example_runtime sample_props))
     = [(True, True)]
   \<and> map (\<lambda>b. (is_off b, spins b)) (controls onRefreshToken (CredentialCard example_runtime sample_props)) = []
   \<and> map is_off (controls onDelete (CredentialCard example_runtime sample_props)) = [True]"
proof -
  have "\<not> supportsTokenRefresh (authType_of (credential sample_props))"
    by (simp add: sample_props_def sample_credential_def sample_data_def authType_of_def data_of_def
      or_string_def supportsTokenRefresh_def lit_eq_iff lit_eq_Nil)
  moreover have "checkingHealth sample_props" "deleting sample_props"
    by (simp_all add: sample_props_def)
  ultimately show ?thesis
    using busy_flags [of example_runtime sample_props] by simp
qed

subsection \<open>Body region\<close>

text \<open>
  C8, as amended. The body has the fact grid and the statistics line. The grid shows
  the rows email, region, base URL, expiry date and last-refresh date in this order,
  each row exactly when its field is present and not the empty string. The statistics
  line always shows the usage and error counters, 0 when the count is absent, and
  shows the last-error text exactly when \<open>last_error\<close> is present and not the empty
  string.
\<close>

theorem fact_rows_amended:
  "children_of (card_content rt c) = [fact_grid rt (data_of c), stats_line c]
   \<and> filter renders (children_of (fact_grid rt d)) =
       (if present (email d)
        then [fact_row (lit ''flex items-center gap-2'') Mail [0x90AE, 0x7BB1, 0x3A] []
                (String_of (email d))] else [])
       @ (if present (region d)
          then [fact_row (lit ''flex items-center gap-2'') Globe [0x533A, 0x57DF, 0x3A] []
                  (String_of (region d))] else [])
       @ (if present (base_url d)
          then [fact_row (lit ''flex items-center gap-2 col-span-2'') Globe (lit ''Base URL:'')
                  [className (lit ''truncate'')] (String_of (base_url d))] else [])
       @ (if present (expire d)
          then [fact_row (lit ''flex items-center gap-2'') Clock [0x8FC7, 0x671F, 0x3A] []
                  (formatDate rt (String_of (expire d)))] else [])
       @ (if present (last_refresh d)
          then [fact_row (lit ''flex items-center gap-2'') RefreshCw [0x5237, 0x65B0, 0x3A] []
                  (formatDate rt (String_of (last_refresh d)))] else [])
   \<and> filter renders (children_of (stats_line c)) =
       [counter [0x4F7F, 0x7528, 0x3A, 0x20] (case usage_count c of None \<Rightarrow> 0 | Some n \<Rightarrow> n),
        counter [0x9519, 0x8BEF, 0x3A, 0x20] (case error_count c of None \<Rightarrow> 0 | Some n \<Rightarrow> n)]
       @ (if present (last_error c)
          then [Element (Intrinsic ''span'') [className (lit ''text-red-500 truncate'')]
                  [Text [0x6700, 0x540E, 0x9519, 0x8BEF, 0x3A, 0x20], Text (String_of (last_error c))]]
          else [])
   \<and> present x = (x \<noteq> None \<and> x \<noteq> Some [])
   \<and> (present x \<longrightarrow> x = Some (String_of x))"
proof -
  have grid: "filter renders (children_of (fact_grid rt d)) =
       (if present (email d)
        then [fact_row (lit ''flex items-center gap-2'') Mail [0x90AE, 0x7BB1, 0x3A] []
                (String_of (email d))] else [])
       @ (if present (region d)
          then [fact_row (lit ''flex items-center gap-2'') Globe [0x533A, 0x57DF, 0x3A] []
                  (String_of (region d))] else [])
       @ (if present (base_url d)
          then [fact_row (lit ''flex items-center gap-2 col-span-2'') Globe (lit ''Base URL:'')
                  [className (lit ''truncate'')] (String_of (base_url d))] else [])
       @ (if present (expire d)
          then [fact_row (lit ''flex items-center gap-2'') Clock [0x8FC7, 0x671F, 0x3A] []
                  (formatDate rt (String_of (expire d)))] else [])
       @ (if present (last_refresh d)
          then [fact_row (lit ''flex items-center gap-2'') RefreshCw [0x5237, 0x65B0, 0x3A] []
                  (formatDate rt (String_of (last_refresh d)))] else [])"
    by (simp del: filter.simps add: fact_grid_def fact_row_def filter_renders_simps)
  have stats: "filter renders (children_of (stats_line c)) =
       [counter [0x4F7F, 0x7528, 0x3A, 0x20] (case usage_count c of None \<Rightarrow> 0 | Some n \<Rightarrow> n),
        counter [0x9519, 0x8BEF, 0x3A, 0x20] (case error_count c of None \<Rightarrow> 0 | Some n \<Rightarrow> n)]
       @ (if present (last_error c)
          then [Element (Intrinsic ''span'') [className (lit ''text-red-500 truncate'')]
                  [Text [0x6700, 0x540E, 0x9519, 0x8BEF, 0x3A, 0x20], Text (String_of (last_error c))]]
          else [])"
    by (simp del: filter.simps add: stats_line_def counter_def filter_renders_simps or_number_def
        Text_def of_optional_present split: option.splits)
  have "present x = (x \<noteq> None \<and> x \<noteq> Some [])"
    by (simp add: present_def split: option.splits)
  moreover have "children_of (card_content rt c) = [fact_grid rt (data_of c), stats_line c]"
    by (simp add: card_content_def)
  ultimately show ?thesis
    using grid stats String_of_present [of x] by blast
qed

theorem fact_rows_amended_witness:
  "filter renders (children_of (fact_grid example_runtime sample_data)) =
     [fact_row (lit ''flex items-center gap-2'') Mail [0x90AE, 0x7BB1, 0x3A] [] (lit ''ops@example.com''),
      fact_row (lit ''flex items-center gap-2'') Globe [0x533A, 0x57DF, 0x3A] [] (lit ''us-east-1''),
      fact_row (lit ''flex items-center gap-2'') Clock [0x8FC7, 0x671F, 0x3A] [] (lit ''01/02 03:04''),
      fact_row (lit ''flex items-center gap-2'') RefreshCw [0x5237, 0x65B0, 0x3A] [] (lit ''Invalid Date'')]"
proof -
  have "present (email sample_data)" "present (region sample_data)" "\<not> present (base_url sample_data)"
    "present (expire sample_data)" "present (last_refresh sample_data)"
    by (simp_all add: sample_data_def present_def lit_eq_Nil)
  moreover have "String_of (email sample_data) = lit ''ops@example.com''"
    "String_of (region sample_data) = lit ''us-east-1''"
    "formatDate example_runtime (String_of (expire sample_data)) = lit ''01/02 03:04''"
    "formatDate example_runtime (String_of (last_refresh sample_data)) = lit ''Invalid Date''"
    by (simp_all add: sample_data_def String_of_def of_optional_def formatDate_def new_Date_def
        example_runtime_def lit_eq_iff)
  ultimately show ?thesis
    using fact_rows_amended [of example_runtime _ sample_data] by simp
qed

text \<open>
  C8 as stated fails for a field that is present and empty: with \<open>email = ""\<close> and
  \<open>last_error = ""\<close> the grid shows no row, the card has no mail icon, and the
  statistics line shows the two counters only.
\<close>

theorem fact_rows_counterexample:
  "email (data_of blank_credential) = Some []
   \<and> last_error blank_credential = Some []
   \<and> filter renders (children_of (fact_grid example_runtime (data_of blank_credential))) = []
   \<and> instances Mail (CredentialCard example_runtime blank_props) = []
   \<and> length (filter renders (children_of (stats_line blank_credential))) = 2"
  by (simp add: blank_props_def blank_credential_def data_of_def empty_data_def fact_grid_def
      stats_line_def and_node_def present_def of_optional_def counter_def instances_card
      getAuthTypeIcon_def card_header_def badge_def card_content_def card_footer_def
      ghost_button_def plain_icon_def spinner_def instances_simps)

subsection \<open>Empty auth type\<close>

text \<open>
  C9. A credential whose \<open>auth_type\<close> is the empty string gives the same card as
  the same credential with \<open>auth_type\<close> absent: the badge has label "OAuth", the key
  icon and the blue color, and the refresh-token control is there.
\<close>

theorem empty_auth_type_is_oauth:
  assumes "credential_data c = Some d" and "auth_type d = Some []"
  shows "CredentialCard rt \<lparr>credential = c, deleting = del, checkingHealth = chk, refreshingToken = rfr\<rparr>
       = CredentialCard rt
           \<lparr>credential = c\<lparr>credential_data := Some (d\<lparr>auth_type := None\<rparr>)\<rparr>,
            deleting = del, checkingHealth = chk, refreshingToken = rfr\<rparr>
     \<and> instances Badge
         (CredentialCard rt \<lparr>credential = c, deleting = del, checkingHealth = chk, refreshingToken = rfr\<rparr>)
       = [Element Badge [variant (lit ''outline''), className (lit ''bg-blue-50'')]
            [Element Key [className (lit ''h-3 w-3 mr-1'')] [], Value (Str (lit ''OAuth''))]]
     \<and> controls onRefreshToken
         (CredentialCard rt \<lparr>credential = c, deleting = del, checkingHealth = chk, refreshingToken = rfr\<rparr>)
       = [ghost_button [onClick onRefreshToken, disabled rfr]
            [if rfr then spinner else plain_icon RefreshCw]]"
proof -
  have a: "authType_of c = lit ''oauth''"
    using assms by (simp add: authType_of_def data_of_def or_string_def)
  have same: "CredentialCard rt \<lparr>credential = c, deleting = del, checkingHealth = chk, refreshingToken = rfr\<rparr>
       = CredentialCard rt
           \<lparr>credential = c\<lparr>credential_data := Some (d\<lparr>auth_type := None\<rparr>)\<rparr>,
            deleting = del, checkingHealth = chk, refreshingToken = rfr\<rparr>"
    using assms
    by (simp add: CredentialCard_def card_header_def card_content_def fact_grid_def stats_line_def
        isHealthy_def authType_of_def data_of_def or_string_def)
  have "supportsTokenRefresh (lit ''oauth'')"
    by (simp add: supportsTokenRefresh_def)
  then have rest: "instances Badge
         (CredentialCard rt \<lparr>credential = c, deleting = del, checkingHealth = chk, refreshingToken = rfr\<rparr>)
       = [Element Badge [variant (lit ''outline''), className (lit ''bg-blue-50'')]
            [Element Key [className (lit ''h-3 w-3 mr-1'')] [], Value (Str (lit ''OAuth''))]]
     \<and> controls onRefreshToken
         (CredentialCard rt \<lparr>credential = c, deleting = del, checkingHealth = chk, refreshingToken = rfr\<rparr>)
       = [ghost_button [onClick onRefreshToken, disabled rfr]
            [if rfr then spinner else plain_icon RefreshCw]]"
    by (simp add: instances_card_Badge controls_card controls_footer a badge_oauth)
  show ?thesis
    using same rest by (rule conjI)
qed

theorem empty_auth_type_is_oauth_witness:
  "auth_type (data_of blank_credential) = Some []
   \<and> instances Badge (CredentialCard example_runtime blank_props)
       = [Element Badge [variant (lit ''outline''), className (lit ''bg-blue-50'')]
            [Element Key [className (lit ''h-3 w-3 mr-1'')] [], Value (Str (lit ''OAuth''))]]
   \<and> controls onRefreshToken (CredentialCard example_runtime blank_props)
       = [ghost_button [onClick onRefreshToken, disabled True] [spinner]]"
proof -
  have d: "credential_data blank_credential = Some (empty_data\<lparr>auth_type := Some [], email := Some []\<rparr>)"
    by (simp add: blank_credential_def)
  have e: "auth_type (empty_data\<lparr>auth_type := Some [], email := Some []\<rparr>) = Some []"
    by simp
  show ?thesis
    using empty_auth_type_is_oauth [OF d e, of example_runtime False False True, THEN conjunct2] d
    by (simp add: blank_props_def data_of_def)
qed

subsection \<open>Toggle, edit and reset\<close>

text \<open>
  C10. For every credential and every combination of busy flags the card has one
  switch, checked exactly when the credential is not disabled and wired to
  \<open>onToggle\<close>; the switch, the edit control and the reset control are not disabled.
\<close>

theorem toggle_edit_reset:
  "instances Switch (CredentialCard rt p)
     = [Element Switch [checked (\<not> is_disabled (credential p)), onCheckedChange onToggle] []]
   \<and> map is_off (instances Switch (CredentialCard rt p)) = [False]
   \<and> map is_off (controls onEdit (CredentialCard rt p)) = [False]
   \<and> map is_off (controls onReset (CredentialCard rt p)) = [False]"
proof -
  have "instances Switch (CredentialCard rt p) = instances Switch (card_header (credential p))"
    by (simp add: instances_card instances_content_none instances_footer_none)
  then show ?thesis
    by (simp add: instances_header_Switch controls_card controls_footer is_off_ghost_button)
      (simp add: is_off_def)
qed

theorem toggle_edit_reset_witness:
  "instances Switch (CredentialCard example_runtime sample_props)
     = [Element Switch [checked False, onCheckedChange onToggle] []]"
  using toggle_edit_reset [of example_runtime sample_props]
  by (simp add: sample_props_def sample_credential_def)

end
